theory Spec2Isabelle
  imports Complex_Main
begin

section \<open>The Tshirt hydrological model (models/tshirt/include/Tshirt.h)\<close>

text \<open>
  The header declares the parameter, state and flux structs, the class
  \<open>tshirt_model\<close> (whose constructor builds the reservoirs once) and the class
  \<open>tshirt_kernel\<close> (whose static \<open>run\<close> rebuilds them in every call).

  A C++ \<open>double\<close> is modelled as a \<open>real\<close>: rounding, infinities and NaN are not
  represented, so every statement below is about which values the code computes and
  passes on, read in exact arithmetic. An \<open>int\<close> is an \<open>int\<close>. Every access that is
  undefined behaviour in C++ (an index outside a vector or an array, a null pointer that
  is dereferenced) and every exception is a value of \<open>tshirt_error\<close>.
\<close>

subsection \<open>Errors\<close>

datatype tshirt_error =
    OutOfBounds   \<comment> \<open>\<open>operator[]\<close> outside a vector or an array\<close>
  | NullPointer   \<comment> \<open>a null pointer is dereferenced\<close>
  | LengthError   \<comment> \<open>\<open>vector::resize\<close> with a negative \<open>int\<close> converted to \<open>size_t\<close>\<close>

subsection \<open>\<open>struct tshirt_params\<close>\<close>

record tshirt_params =
  maxsmc :: real
  wltsmc :: real
  satdk :: real
  satpsi :: real
  slope :: real
  b :: real
  multiplier :: real
  alpha_fc :: real
  Klf :: real
  Kn :: real
  nash_n :: int
  Cgw :: real
  Cschaake :: real
  expon :: real
  max_soil_storage_meters :: real
  max_groundwater_storage_meters :: real
  max_lateral_flow :: real
  depth :: real

text \<open>
  The constructor (lines 46-66): the member initialiser list copies the fourteen
  arguments, \<open>depth\<close> has its default member initialiser \<open>2.0\<close>, and the body assigns
  the three derived members. It has no check, no \<open>throw\<close> and no early return.
\<close>

definition tshirt_params_ctor ::
  "real \<Rightarrow> real \<Rightarrow> real \<Rightarrow> real \<Rightarrow> real \<Rightarrow> real \<Rightarrow> real \<Rightarrow> real \<Rightarrow> real \<Rightarrow> real \<Rightarrow> int \<Rightarrow> real \<Rightarrow> real \<Rightarrow> real
     \<Rightarrow> tshirt_params" where
  "tshirt_params_ctor maxsmc' wltsmc' satdk' satpsi' slope' b' multiplier' alpha_fc' Klf' Kn'
       nash_n' Cgw' expon' max_gw_storage =
     (let this = \<lparr> maxsmc = maxsmc', wltsmc = wltsmc', satdk = satdk', satpsi = satpsi',
                    slope = slope', b = b', multiplier = multiplier', alpha_fc = alpha_fc',
                    Klf = Klf', Kn = Kn', nash_n = nash_n', Cgw = Cgw', Cschaake = 0,
                    expon = expon', max_soil_storage_meters = 0,
                    max_groundwater_storage_meters = max_gw_storage,
                    max_lateral_flow = 0, depth = 2 \<rparr>;
          this = this\<lparr> max_soil_storage_meters := depth this * maxsmc' \<rparr>;
          this = this\<lparr> Cschaake := 3 * satdk' / (2 / 1000000) \<rparr>;
          this = this\<lparr> max_lateral_flow := satdk' * multiplier' * max_soil_storage_meters this \<rparr>
      in this)"

subsection \<open>\<open>struct tshirt_state\<close>\<close>

text \<open>
  \<open>nash_cascade_storeage_meters\<close> is a \<open>double*\<close>: \<open>None\<close> is the null pointer and
  \<open>Some xs\<close> a pointer to the first element of an array holding \<open>xs\<close>. No function of
  the header writes through the pointer, so the array's contents stand for it.
\<close>

record tshirt_state =
  soil_storage_meters :: real
  groundwater_storage_meters :: real
  nash_cascade_storeage_meters :: "real list option"

definition tshirt_state_ctor :: "real \<Rightarrow> real \<Rightarrow> real list option \<Rightarrow> tshirt_state" where
  "tshirt_state_ctor soil gw cascade =
     \<lparr> soil_storage_meters = soil, groundwater_storage_meters = gw,
       nash_cascade_storeage_meters = cascade \<rparr>"

definition tshirt_state_ctor_default :: "real \<Rightarrow> real \<Rightarrow> tshirt_state" where
  \<comment> \<open>the third parameter left at its default argument, \<open>nullptr\<close>\<close>
  "tshirt_state_ctor_default soil gw = tshirt_state_ctor soil gw None"

subsection \<open>\<open>struct tshirt_fluxes\<close>\<close>

record tshirt_fluxes =
  surface_runoff_meters_per_second :: real
  groundwater_flow_meters_per_second :: real
  soil_percolation_flow_meters_per_second :: real
  soil_lateral_flow_meters_per_second :: real
  et_loss_meters :: real

definition tshirt_fluxes_ctor :: "real \<Rightarrow> real \<Rightarrow> real \<Rightarrow> real \<Rightarrow> real \<Rightarrow> tshirt_fluxes" where
  "tshirt_fluxes_ctor q_gw q_perc q_lf runoff et_loss =
     \<lparr> surface_runoff_meters_per_second = runoff,
       groundwater_flow_meters_per_second = q_gw,
       soil_percolation_flow_meters_per_second = q_perc,
       soil_lateral_flow_meters_per_second = q_lf,
       et_loss_meters = et_loss \<rparr>"

subsection \<open>The collaborators\<close>

text \<open>
  Modelled from the spec: the classes \<open>Reservoir_Outlet\<close> and \<open>Nonlinear_Reservoir\<close>
  (Nonlinear_Reservoir.hpp is not under src/). Section 6 of the spec: a reservoir is
  "constructed with (min storage, max storage, initial storage, one-or-more outlet
  configurations {coefficient, exponent, activation threshold, max velocity})". The
  records hold exactly what the constructors are given, in the order of their
  arguments; what a reservoir does with it is the collaborator's (see \<open>collaborators\<close>).
\<close>

record Reservoir_Outlet =
  coefficient :: real
  exponent :: real
  activation_threshold_meters :: real
  max_velocity_meters_per_second :: real

record Nonlinear_Reservoir =
  minimum_storage_meters :: real
  maximum_storage_meters :: real
  current_storage_height_meters :: real
  outlets :: "Reservoir_Outlet list"

definition Reservoir_Outlet_ctor :: "real \<Rightarrow> real \<Rightarrow> real \<Rightarrow> real \<Rightarrow> Reservoir_Outlet" where
  "Reservoir_Outlet_ctor a_arg b_arg activation max_velocity =
     \<lparr> coefficient = a_arg, exponent = b_arg, activation_threshold_meters = activation,
       max_velocity_meters_per_second = max_velocity \<rparr>"

definition Nonlinear_Reservoir_outlets ::
  "real \<Rightarrow> real \<Rightarrow> real \<Rightarrow> Reservoir_Outlet list \<Rightarrow> Nonlinear_Reservoir" where
  \<comment> \<open>the constructor taking a vector of outlets\<close>
  "Nonlinear_Reservoir_outlets min_storage max_storage storage outs =
     \<lparr> minimum_storage_meters = min_storage, maximum_storage_meters = max_storage,
       current_storage_height_meters = storage, outlets = outs \<rparr>"

definition Nonlinear_Reservoir_single ::
  "real \<Rightarrow> real \<Rightarrow> real \<Rightarrow> real \<Rightarrow> real \<Rightarrow> real \<Rightarrow> real \<Rightarrow> Nonlinear_Reservoir" where
  \<comment> \<open>the constructor of a single outlet reservoir\<close>
  "Nonlinear_Reservoir_single min_storage max_storage storage a_arg b_arg activation max_velocity =
     Nonlinear_Reservoir_outlets min_storage max_storage storage
       [Reservoir_Outlet_ctor a_arg b_arg activation max_velocity]"

text \<open>
  \<open>pdm03_struct\<close> (Pdm03.h is not under src/): the header reads and writes its member
  \<open>XHuz\<close> only; \<open>pdm03_members\<close> stands for the others.
\<close>

record pdm03_struct =
  XHuz :: real
  pdm03_members :: "real list"

text \<open>
  Everything the header calls and does not define is a parameter of the model, with the
  interface of section 6 of the spec. \<open>'g\<close> is the state of a \<open>giuh::giuh_kernel\<close>.
  \<^item> \<open>Schaake_partitioning_scheme dt Cschaake deficit input\<close> gives the values it stores
    through its two pointers, \<open>(surface_runoff, infiltration)\<close>.
  \<^item> \<open>response_meters_per_second r in_flow dt\<close> gives the velocity it returns, the
    excess it stores in its reference argument, and the reservoir afterwards.
  \<^item> \<open>velocity_meters_per_second_for_outlet\<close> and \<open>get_storage_height_meters\<close> are the
    reservoir's accessors.
  \<^item> \<open>pdm03_wrapper\<close> updates the struct it is given a pointer to.
  \<^item> \<open>calc_giuh_output g dt runoff\<close> gives its result and the kernel afterwards.
  \<^item> \<open>pow\<close> is \<open>std::pow\<close>; \<open>ATMOSPHERIC_PRESSURE_PASCALS\<close> and
    \<open>WATER_SPECIFIC_WEIGHT\<close> are macros of Constants.h.
  \<^item> \<open>default_outlet\<close> is a default constructed \<open>Reservoir_Outlet\<close>.
  \<^item> \<open>model_calc_soil_field_capacity_storage\<close> is the member function
    \<open>tshirt_model::calc_soil_field_capacity_storage\<close>, which the header declares and
    does not define; it sees the members initialised before the constructor's body.
\<close>

record 'g collaborators =
  Schaake_partitioning_scheme :: "real \<Rightarrow> real \<Rightarrow> real \<Rightarrow> real \<Rightarrow> real \<times> real"
  response_meters_per_second ::
    "Nonlinear_Reservoir \<Rightarrow> real \<Rightarrow> real \<Rightarrow> real \<times> real \<times> Nonlinear_Reservoir"
  velocity_meters_per_second_for_outlet :: "Nonlinear_Reservoir \<Rightarrow> int \<Rightarrow> real"
  get_storage_height_meters :: "Nonlinear_Reservoir \<Rightarrow> real"
  pdm03_wrapper :: "pdm03_struct \<Rightarrow> pdm03_struct"
  calc_giuh_output :: "'g \<Rightarrow> real \<Rightarrow> real \<Rightarrow> real \<times> 'g"
  pow :: "real \<Rightarrow> real \<Rightarrow> real"
  ATMOSPHERIC_PRESSURE_PASCALS :: real
  WATER_SPECIFIC_WEIGHT :: real
  default_outlet :: Reservoir_Outlet
  model_calc_soil_field_capacity_storage :: "tshirt_params \<Rightarrow> tshirt_state option \<Rightarrow> real"

subsection \<open>Vectors and arrays\<close>

definition vector_set :: "'a list \<Rightarrow> int \<Rightarrow> 'a \<Rightarrow> tshirt_error + 'a list" where
  \<comment> \<open>\<open>v[i] = x\<close> on a \<open>std::vector\<close>: \<open>operator[]\<close> never grows the vector\<close>
  "vector_set v i x =
     (if 0 \<le> i \<and> nat i < length v then Inr (v[nat i := x]) else Inl OutOfBounds)"

definition resize_count :: "int \<Rightarrow> tshirt_error + nat" where
  \<comment> \<open>\<open>v.resize(n)\<close> with \<open>n\<close> an \<open>int\<close>: a negative \<open>n\<close> converts to a \<open>size_t\<close> beyond
      \<open>max_size()\<close> and \<open>resize\<close> throws \<open>std::length_error\<close>\<close>
  "resize_count n = (if n < 0 then Inl LengthError else Inr (nat n))"

definition cascade_storage_at :: "tshirt_state \<Rightarrow> nat \<Rightarrow> tshirt_error + real" where
  \<comment> \<open>\<open>state.nash_cascade_storeage_meters[i]\<close>\<close>
  "cascade_storage_at st i =
     (case nash_cascade_storeage_meters st of
        None \<Rightarrow> Inl NullPointer
      | Some xs \<Rightarrow> if i < length xs then Inr (xs ! i) else Inl OutOfBounds)"

primrec fill_vector :: "(nat \<Rightarrow> tshirt_error + 'a) \<Rightarrow> nat list \<Rightarrow> tshirt_error + 'a list" where
  \<comment> \<open>\<open>for (i = 0; i < v.size(); ++i) v[i] = f(i)\<close>, stopping at the first error\<close>
  "fill_vector f [] = Inr []"
| "fill_vector f (i # is) =
     (case f i of
        Inl e \<Rightarrow> Inl e
      | Inr x \<Rightarrow> (case fill_vector f is of Inl e \<Rightarrow> Inl e | Inr xs \<Rightarrow> Inr (x # xs)))"

subsection \<open>\<open>class tshirt_kernel\<close>\<close>

definition calc_evapotranspiration ::
  "'g collaborators \<Rightarrow> real \<Rightarrow> pdm03_struct \<Rightarrow> real \<times> pdm03_struct" where
  \<comment> \<open>lines 240-246; the result is the returned value and the struct \<open>et_params\<close> points
      to afterwards\<close>
  "calc_evapotranspiration ext soil_m et_params =
     (let pdm = et_params\<lparr> XHuz := soil_m \<rparr>;
          pdm = pdm03_wrapper ext pdm
      in (XHuz pdm - soil_m, pdm))"

definition calc_soil_field_capacity_storage ::
  "'g collaborators \<Rightarrow> tshirt_params \<Rightarrow> tshirt_state \<Rightarrow> real" where
  \<comment> \<open>lines 255-267. The value is the code's, read in exact arithmetic, only where every
      divisor is non-zero and every \<open>pow\<close> has a positive base: \<open>satpsi > 0\<close>, \<open>b\<close>
      neither 0 nor 1, and \<open>head_above_water_table > 1/2\<close>. Elsewhere the code computes
      an infinity or a NaN, which a \<open>real\<close> does not represent; no statement below
      depends on the value of this function.\<close>
  "calc_soil_field_capacity_storage ext params state =
     (let head_above_water_table =
            alpha_fc params * (ATMOSPHERIC_PRESSURE_PASCALS ext / WATER_SPECIFIC_WEIGHT ext);
          z1 = head_above_water_table - 1 / 2;
          z2 = z1 + 2
      in maxsmc params * pow ext (1 / satpsi params) (- 1 / b params) *
           ((b params * pow ext z2 ((b params - 1) / b params) / (b params - 1)) -
            (b params * pow ext z1 ((b params - 1) / b params) / (b params - 1))))"

definition init_nash_cascade_vector ::
  "tshirt_params \<Rightarrow> tshirt_state \<Rightarrow> real \<Rightarrow> real \<Rightarrow> tshirt_error + Nonlinear_Reservoir list" where
  \<comment> \<open>lines 269-279; the result is the vector \<open>reservoirs\<close> afterwards\<close>
  "init_nash_cascade_vector params state activation max_flow_velocity =
     (case resize_count (nash_n params) of
        Inl e \<Rightarrow> Inl e
      | Inr n \<Rightarrow>
          fill_vector
            (\<lambda>i. case cascade_storage_at state i of
                    Inl e \<Rightarrow> Inl e
                  | Inr storage \<Rightarrow>
                      Inr (Nonlinear_Reservoir_single 0 (max_soil_storage_meters params) storage
                             (Kn params) 1 activation max_flow_velocity))
            [0..<n])"

fun nash_cascade_loop ::
  "'g collaborators \<Rightarrow> real \<Rightarrow> Nonlinear_Reservoir list \<Rightarrow> real \<Rightarrow> real \<times> Nonlinear_Reservoir list" where
  \<comment> \<open>lines 339-344, from stage \<open>i\<close> on: the result is \<open>Qlf\<close> after the loop and the
      reservoirs of the cascade afterwards\<close>
  "nash_cascade_loop ext dt [] Qlf = (Qlf, [])"
| "nash_cascade_loop ext dt (r # rs) Qlf =
     (case response_meters_per_second ext r Qlf dt of
        (Qlf1, subsurface_excess, r') \<Rightarrow>
          (case nash_cascade_loop ext dt rs (Qlf1 + subsurface_excess / dt) of
             (Qlf2, rs') \<Rightarrow> (Qlf2, r' # rs')))"

text \<open>
  What \<open>run\<close> leaves behind when it returns: its \<open>int\<close>, the objects behind its two
  references, and the objects behind its two pointers (taken to point to objects).
\<close>

record 'g run_result =
  return_value :: int
  new_state :: tshirt_state
  new_fluxes :: tshirt_fluxes
  new_giuh_obj :: 'g
  new_et_params :: pdm03_struct

text \<open>
  \<open>run\<close> (lines 282-371) in the order of its statements. Four of its steps have a
  name of their own, so that statements can speak of them: the partitioning
  (lines 293-299), the two writes to the local vector \<open>subsurface_outlets\<close>
  (lines 310-314), the soil reservoir (line 316) and the groundwater reservoir
  (lines 353-356).
\<close>

definition run_partitioning ::
  "'g collaborators \<Rightarrow> real \<Rightarrow> tshirt_params \<Rightarrow> tshirt_state \<Rightarrow> real \<Rightarrow> real \<times> real" where
  \<comment> \<open>\<open>(surface_runoff, subsurface_infiltration_flux)\<close>\<close>
  "run_partitioning ext dt params state input_flux_meters =
     (let column_total_soil_moisture_deficit =
            max_soil_storage_meters params - soil_storage_meters state
      in Schaake_partitioning_scheme ext dt (Cschaake params)
           column_total_soil_moisture_deficit input_flux_meters)"

definition run_subsurface_outlets ::
  "Reservoir_Outlet list \<Rightarrow> tshirt_params \<Rightarrow> real \<Rightarrow> tshirt_error + Reservoir_Outlet list" where
  \<comment> \<open>the vector after lines 310 and 313, from the vector as it is before them\<close>
  "run_subsurface_outlets subsurface_outlets params Sfc =
     (let lf_outlet_index = 0;
          perc_outlet_index = 1
      in
      case vector_set subsurface_outlets lf_outlet_index
             (Reservoir_Outlet_ctor (Klf params) 1 Sfc (max_lateral_flow params)) of
        Inl e \<Rightarrow> Inl e
      | Inr subsurface_outlets \<Rightarrow>
          vector_set subsurface_outlets perc_outlet_index
            (Reservoir_Outlet_ctor (satdk params * slope params) 1 Sfc (satdk params)))"

definition run_subsurface_reservoir ::
  "tshirt_params \<Rightarrow> tshirt_state \<Rightarrow> Reservoir_Outlet list \<Rightarrow> Nonlinear_Reservoir" where
  "run_subsurface_reservoir params state subsurface_outlets =
     Nonlinear_Reservoir_outlets 0 (depth params) (soil_storage_meters state) subsurface_outlets"

definition run_groundwater_res :: "tshirt_params \<Rightarrow> tshirt_state \<Rightarrow> Nonlinear_Reservoir" where
  "run_groundwater_res params state =
     (let max_gw_velocity = Cgw params * (exp (expon params) - 1)
      in Nonlinear_Reservoir_single 0 (max_groundwater_storage_meters params)
           (groundwater_storage_meters state) (Cgw params) 1 0 max_gw_velocity)"

text \<open>
  \<open>new_state0\<close> and \<open>fluxes0\<close> are the objects behind the references \<open>new_state\<close> and
  \<open>fluxes\<close> at the call. Line 303 declares \<open>vector<Reservoir_Outlet> subsurface_outlets;\<close>,
  the empty vector, and nothing resizes it before the writes of lines 310 and 313.
\<close>

definition run ::
  "'g collaborators \<Rightarrow> real \<Rightarrow> tshirt_params \<Rightarrow> tshirt_state \<Rightarrow> tshirt_state
     \<Rightarrow> tshirt_fluxes \<Rightarrow> real \<Rightarrow> 'g \<Rightarrow> pdm03_struct \<Rightarrow> tshirt_error + 'g run_result" where
  "run ext dt params state new_state0 fluxes0 input_flux_meters giuh_obj et_params =
     (let (surface_runoff, subsurface_infiltration_flux) =
            run_partitioning ext dt params state input_flux_meters;
          Sfc = calc_soil_field_capacity_storage ext params state;
          subsurface_outlets = [];
          lf_outlet_index = 0;
          perc_outlet_index = 1
      in
      case run_subsurface_outlets subsurface_outlets params Sfc of
        Inl e \<Rightarrow> Inl e
      | Inr subsurface_outlets \<Rightarrow>
         (let subsurface_reservoir = run_subsurface_reservoir params state subsurface_outlets;
              (discarded, subsurface_excess, subsurface_reservoir) =
                response_meters_per_second ext subsurface_reservoir subsurface_infiltration_flux dt;
              Qlf = velocity_meters_per_second_for_outlet ext subsurface_reservoir lf_outlet_index;
              Qperc = velocity_meters_per_second_for_outlet ext subsurface_reservoir perc_outlet_index;
              new_soil_storage = get_storage_height_meters ext subsurface_reservoir;
              (et_loss, et_params) = calc_evapotranspiration ext new_soil_storage et_params;
              fluxes1 = fluxes0\<lparr> et_loss_meters := et_loss \<rparr>;
              new_state1 = new_state0\<lparr> soil_storage_meters :=
                             new_soil_storage - et_loss_meters fluxes1 \<rparr>
          in
          case init_nash_cascade_vector params state Sfc (max_lateral_flow params) of
            Inl e \<Rightarrow> Inl e
          | Inr nash_cascade \<Rightarrow>
             (let (Qlf, nash_cascade) = nash_cascade_loop ext dt nash_cascade Qlf;
                  groundwater_res = run_groundwater_res params state;
                  (gw_flow, excess_gw_water, groundwater_res) =
                    response_meters_per_second ext groundwater_res Qperc dt;
                  fluxes2 = fluxes1\<lparr> groundwater_flow_meters_per_second := gw_flow \<rparr>;
                  new_state2 = new_state1\<lparr> groundwater_storage_meters :=
                                 get_storage_height_meters ext groundwater_res \<rparr>;
                  fluxes3 = fluxes2\<lparr> soil_lateral_flow_meters_per_second := Qlf \<rparr>;
                  fluxes4 = fluxes3\<lparr> soil_percolation_flow_meters_per_second := Qperc \<rparr>;
                  (giuh_runoff, giuh_obj) = calc_giuh_output ext giuh_obj dt surface_runoff;
                  fluxes5 = fluxes4\<lparr> surface_runoff_meters_per_second := giuh_runoff \<rparr>
              in Inr \<lparr> return_value = 0, new_state = new_state2, new_fluxes = fluxes5,
                       new_giuh_obj = giuh_obj, new_et_params = et_params \<rparr>)))"

definition mass_check ::
  "tshirt_params \<Rightarrow> tshirt_state \<Rightarrow> real \<Rightarrow> tshirt_state \<Rightarrow> tshirt_fluxes \<Rightarrow> real \<Rightarrow> int" where
  "mass_check params current_state' input_flux_meters next_state calculated_fluxes
       timestep_seconds = 0"

subsection \<open>\<open>class tshirt_model\<close>\<close>

record tshirt_model =
  current_state :: "tshirt_state option"
  model_params :: tshirt_params
  previous_state :: "tshirt_state option"
  soil_lf_nash_res :: "Nonlinear_Reservoir list"
  lf_outlet_index :: int
  perc_outlet_index :: int
  soil_reservoir :: Nonlinear_Reservoir
  groundwater_reservoir :: Nonlinear_Reservoir
  fluxes :: "tshirt_fluxes option"

definition deref :: "'a option \<Rightarrow> tshirt_error + 'a" where
  \<comment> \<open>\<open>p->\<close> on a \<open>shared_ptr\<close>: \<open>None\<close> is the empty pointer\<close>
  "deref p = (case p of None \<Rightarrow> Inl NullPointer | Some x \<Rightarrow> Inr x)"

text \<open>
  The constructor of lines 128-171, in the order of its statements; as for \<open>run\<close>, the
  vector of cascade reservoirs (lines 136-144), the vector of outlets (lines 148-156),
  the soil reservoir (line 158) and the groundwater reservoir (lines 164-168) have names
  of their own. The two states are \<open>shared_ptr\<close>s to the object \<open>initial_state\<close>
  points to; the outlet indices have their default member initialisers 0 and 1;
  \<open>fluxes\<close> is the null pointer.
\<close>

definition model_soil_lf_nash_res ::
  "tshirt_params \<Rightarrow> tshirt_state option \<Rightarrow> real \<Rightarrow> tshirt_error + Nonlinear_Reservoir list" where
  "model_soil_lf_nash_res model_params' previous_state' Sfc =
     (case resize_count (nash_n model_params') of
        Inl e \<Rightarrow> Inl e
      | Inr n \<Rightarrow>
          fill_vector
            (\<lambda>i. case deref previous_state' of
                    Inl e \<Rightarrow> Inl e
                  | Inr st \<Rightarrow>
                      (case cascade_storage_at st i of
                         Inl e \<Rightarrow> Inl e
                       | Inr storage \<Rightarrow>
                           Inr (Nonlinear_Reservoir_single 0
                                  (max_soil_storage_meters model_params') storage
                                  (Kn model_params') 1 Sfc (max_lateral_flow model_params'))))
            [0..<n])"

definition model_soil_res_outlets ::
  "'g collaborators \<Rightarrow> tshirt_params \<Rightarrow> real \<Rightarrow> tshirt_error + Reservoir_Outlet list" where
  "model_soil_res_outlets ext model_params' Sfc =
     (let lf_outlet_index' = 0;
          perc_outlet_index' = 1;
          soil_res_outlets = replicate 2 (default_outlet ext)
      in
      case vector_set soil_res_outlets lf_outlet_index'
             (Reservoir_Outlet_ctor (Klf model_params') 1 Sfc (max_lateral_flow model_params')) of
        Inl e \<Rightarrow> Inl e
      | Inr soil_res_outlets \<Rightarrow>
          vector_set soil_res_outlets perc_outlet_index'
            (Reservoir_Outlet_ctor (satdk model_params' * slope model_params') 1 Sfc
               (satdk model_params')))"

definition model_soil_reservoir ::
  "tshirt_params \<Rightarrow> tshirt_state \<Rightarrow> Reservoir_Outlet list \<Rightarrow> Nonlinear_Reservoir" where
  "model_soil_reservoir model_params' st soil_res_outlets =
     Nonlinear_Reservoir_outlets 0 (depth model_params') (soil_storage_meters st) soil_res_outlets"

definition model_groundwater_reservoir :: "tshirt_params \<Rightarrow> tshirt_state \<Rightarrow> Nonlinear_Reservoir" where
  "model_groundwater_reservoir model_params' st =
     (let max_gw_velocity = Cgw model_params' * (exp (expon model_params') - 1)
      in Nonlinear_Reservoir_single 0 (max_groundwater_storage_meters model_params')
           (groundwater_storage_meters st) (Cgw model_params') 1 0 max_gw_velocity)"

definition tshirt_model_ctor ::
  "'g collaborators \<Rightarrow> tshirt_params \<Rightarrow> tshirt_state option \<Rightarrow> tshirt_error + tshirt_model" where
  "tshirt_model_ctor ext model_params' initial_state =
     (let previous_state' = initial_state;
          Sfc = model_calc_soil_field_capacity_storage ext model_params' initial_state
      in
      case model_soil_lf_nash_res model_params' previous_state' Sfc of
        Inl e \<Rightarrow> Inl e
      | Inr soil_lf_nash_res' \<Rightarrow>
         (case model_soil_res_outlets ext model_params' Sfc of
            Inl e \<Rightarrow> Inl e
          | Inr soil_res_outlets \<Rightarrow>
             (case deref previous_state' of
                Inl e \<Rightarrow> Inl e
              | Inr st \<Rightarrow>
                  Inr \<lparr> current_state = initial_state, model_params = model_params',
                        previous_state = previous_state', soil_lf_nash_res = soil_lf_nash_res',
                        lf_outlet_index = 0, perc_outlet_index = 1,
                        soil_reservoir = model_soil_reservoir model_params' st soil_res_outlets,
                        groundwater_reservoir = model_groundwater_reservoir model_params' st,
                        fluxes = None \<rparr>)))"

definition tshirt_model_ctor_default ::
  "'g collaborators \<Rightarrow> tshirt_params \<Rightarrow> tshirt_error + tshirt_model" where
  \<comment> \<open>lines 173-174: \<open>make_shared<tshirt_state>(tshirt_state(0.0, 0.0))\<close>\<close>
  "tshirt_model_ctor_default ext model_params' =
     tshirt_model_ctor ext model_params' (Some (tshirt_state_ctor_default 0 0))"

subsection \<open>A collaborator to evaluate with\<close>

text \<open>
  Modelled from the spec: one instance of the collaborators (none of them is under
  src/), with the interfaces of section 6 and the glossary, used only to evaluate the
  functions above at concrete inputs. An outlet discharges nothing until the storage is
  above its activation threshold; above it, its velocity is its coefficient times the
  storage above the threshold raised to its exponent, capped by its maximum velocity.
  The reservoir takes the inflow in and discharges through its outlets; what is then
  above the maximum is the excess, and the storage stays within [min, max] ("must
  guarantee storage stays within [min, max]; any inflow that would exceed max is
  reported as excess"). The partitioner lets everything infiltrate (surface runoff +
  infiltration = input flux), the unit hydrograph passes the runoff on,
  \<open>pdm03_wrapper\<close> adds \<open>et\<close> to \<open>XHuz\<close>, and \<open>pow\<close> is \<open>powr\<close>, which is
  \<open>std::pow\<close> for a positive base only.
\<close>

definition bucket_outlet_velocity :: "Reservoir_Outlet \<Rightarrow> real \<Rightarrow> real" where
  "bucket_outlet_velocity out storage =
     (if storage \<le> activation_threshold_meters out then 0
      else min (coefficient out * (storage - activation_threshold_meters out) powr exponent out)
             (max_velocity_meters_per_second out))"

definition bucket_response ::
  "Nonlinear_Reservoir \<Rightarrow> real \<Rightarrow> real \<Rightarrow> real \<times> real \<times> Nonlinear_Reservoir" where
  "bucket_response r in_flow dt =
     (let filled = current_storage_height_meters r + in_flow * dt;
          velocity = (\<Sum>out \<leftarrow> outlets r. bucket_outlet_velocity out filled);
          drained = filled - velocity * dt;
          excess = max 0 (drained - maximum_storage_meters r)
      in (velocity, excess,
          r\<lparr> current_storage_height_meters :=
                max (minimum_storage_meters r) (min drained (maximum_storage_meters r)) \<rparr>))"

definition bucket_velocity :: "Nonlinear_Reservoir \<Rightarrow> int \<Rightarrow> real" where
  "bucket_velocity r i =
     (if 0 \<le> i \<and> nat i < length (outlets r)
      then bucket_outlet_velocity (outlets r ! nat i) (current_storage_height_meters r)
      else 0)"

definition bucket_collaborators :: "real \<Rightarrow> unit collaborators" where
  "bucket_collaborators et =
     \<lparr> Schaake_partitioning_scheme = (\<lambda>dt c deficit input_flux. (0, input_flux)),
       response_meters_per_second = bucket_response,
       velocity_meters_per_second_for_outlet = bucket_velocity,
       get_storage_height_meters = current_storage_height_meters,
       pdm03_wrapper = (\<lambda>pdm. pdm\<lparr> XHuz := XHuz pdm + et \<rparr>),
       calc_giuh_output = (\<lambda>g dt runoff. (runoff, g)),
       pow = (powr),
       ATMOSPHERIC_PRESSURE_PASCALS = 101325,
       WATER_SPECIFIC_WEIGHT = 9810,
       default_outlet = Reservoir_Outlet_ctor 0 0 0 0,
       model_calc_soil_field_capacity_storage = (\<lambda>params st. 0) \<rparr>"

subsection \<open>Inputs to evaluate at\<close>

definition example_params :: tshirt_params where
  \<comment> \<open>\<open>max_soil_storage_meters = 1\<close>, two cascade stages with \<open>Kn = 1/2\<close>, no
      outflow from the soil and groundwater reservoirs\<close>
  "example_params = tshirt_params_ctor (1/2) 0 0 1 0 2 0 0 0 (1/2) 2 0 0 1"

definition scenario_params :: tshirt_params where
  \<comment> \<open>the parameters of the first scenario of section 8 of the spec\<close>
  "scenario_params =
     tshirt_params_ctor 0.439 0.066 0.000001 0.355 0.01 4.05 0.0 0.33 0.01 0.03 2 0.01 5.0 0.05"

definition scenario_state :: tshirt_state where
  \<comment> \<open>the initial state of that scenario\<close>
  "scenario_state = tshirt_state_ctor 0 0 (Some [0, 0])"

definition example_state :: tshirt_state where
  "example_state = tshirt_state_ctor (1/2) 0 (Some [1/2, 0])"

definition example_new_state :: tshirt_state where
  \<comment> \<open>the object the caller passes for \<open>new_state\<close>\<close>
  "example_new_state = tshirt_state_ctor 0 0 (Some [0, 0])"

definition example_fluxes :: tshirt_fluxes where
  "example_fluxes = tshirt_fluxes_ctor 0 0 0 0 0"

definition example_et_params :: pdm03_struct where
  "example_et_params = \<lparr> XHuz = 0, pdm03_members = [] \<rparr>"

definition example_cascade :: "Nonlinear_Reservoir list" where
  \<comment> \<open>two stages with maximum 1, coefficient 1/2, exponent 1, activation threshold 0
      and maximum velocity 2, holding 1/2 and 0\<close>
  "example_cascade =
     [Nonlinear_Reservoir_single 0 1 (1/2) (1/2) 1 0 2,
      Nonlinear_Reservoir_single 0 1 0 (1/2) 1 0 2]"

subsection \<open>The cascade as the spec words it\<close>

text \<open>
  Section 4.4, step 6 of the spec: "Route Qlf sequentially through each cascade stage in
  order; each stage transforms its input velocity into an output velocity and may itself
  generate excess; accumulated excess from every stage is distributed back into the final
  Qlf value, normalized by dt." This definition follows those words, to be compared with
  \<open>nash_cascade_loop\<close>, which follows the code: here each stage receives the output
  velocity of the stage before it, and the sum of the excesses, divided by \<open>dt\<close>, is
  added to the final value.
\<close>

fun spec_nash_cascade ::
  "'g collaborators \<Rightarrow> real \<Rightarrow> Nonlinear_Reservoir list \<Rightarrow> real \<Rightarrow> real \<Rightarrow> real" where
  "spec_nash_cascade ext dt [] Qlf accumulated_excess = Qlf + accumulated_excess / dt"
| "spec_nash_cascade ext dt (r # rs) Qlf accumulated_excess =
     (case response_meters_per_second ext r Qlf dt of
        (Qlf1, excess, r') \<Rightarrow> spec_nash_cascade ext dt rs Qlf1 (accumulated_excess + excess))"

section \<open>Properties\<close>

lemmas evaluation_rules =
  example_params_def scenario_params_def scenario_state_def example_state_def
  example_new_state_def
  example_fluxes_def example_et_params_def example_cascade_def
  tshirt_params_ctor_def tshirt_state_ctor_def tshirt_state_ctor_default_def
  tshirt_fluxes_ctor_def tshirt_model_ctor_def model_soil_lf_nash_res_def
  model_soil_res_outlets_def model_soil_reservoir_def model_groundwater_reservoir_def
  deref_def resize_count_def cascade_storage_at_def vector_set_def
  Nonlinear_Reservoir_single_def Nonlinear_Reservoir_outlets_def Reservoir_Outlet_ctor_def
  bucket_collaborators_def bucket_response_def bucket_outlet_velocity_def bucket_velocity_def
  Let_def upt_rec numeral_2_eq_2

subsection \<open>The parameter set\<close>

text \<open>
  The derived members (C9). Lines 63-65 compute them with the multiplication and the
  division of doubles, which round and overflow; read in exact arithmetic they are the
  members that \<open>tshirt_params_ctor_accepts\<close> below shows. Whether the doubles are equal
  to the products and the quotient for every finite input is a statement about
  floating point arithmetic, which a \<open>real\<close> does not express, and none is made here.
  No other function of the header assigns a member of a parameter set: \<open>run\<close> takes its
  \<open>params\<close> by value and returns none, and the constructor of \<open>tshirt_model\<close> keeps the
  set it is given.
\<close>

text \<open>
  The constructor of \<open>tshirt_model\<close> stores the parameter set it is given.
\<close>

lemma tshirt_model_ctor_keeps_params:
  assumes "tshirt_model_ctor ext params initial_state = Inr m"
  shows "model_params m = params"
  using assms by (auto simp: tshirt_model_ctor_def Let_def split: sum.splits)

text \<open>
  C8, as the code has it. The constructor checks nothing: for every input it returns the
  parameter set that holds the fourteen arguments as given, neither rejected nor clamped,
  with the three derived members computed from them.
\<close>

theorem tshirt_params_ctor_accepts:
  "tshirt_params_ctor maxsmc' wltsmc' satdk' satpsi' slope' b' multiplier' alpha_fc' Klf' Kn'
       nash_n' Cgw' expon' max_gw_storage =
     \<lparr> maxsmc = maxsmc', wltsmc = wltsmc', satdk = satdk', satpsi = satpsi', slope = slope',
       b = b', multiplier = multiplier', alpha_fc = alpha_fc', Klf = Klf', Kn = Kn',
       nash_n = nash_n', Cgw = Cgw', Cschaake = 3 * satdk' / (2 / 1000000), expon = expon',
       max_soil_storage_meters = 2 * maxsmc', max_groundwater_storage_meters = max_gw_storage,
       max_lateral_flow = satdk' * multiplier' * (2 * maxsmc'), depth = 2 \<rparr>"
  by (simp add: tshirt_params_ctor_def)

text \<open>
  C8 as stated fails: with a negative conductivity \<open>satdk = -1\<close>, a negative rate
  \<open>Klf = -1\<close>, \<open>b = 1\<close> and a zero groundwater maximum, the constructor returns a parameter
  set, and the set holds exactly these values.
\<close>

theorem tshirt_params_ctor_invalid_counterexample:
  "satdk (tshirt_params_ctor 0.439 0.066 (- 1) 0.355 0.01 1 0.0 0.33 (- 1) 0.03 2 0.01 5.0 0) = - 1 \<and>
   Klf (tshirt_params_ctor 0.439 0.066 (- 1) 0.355 0.01 1 0.0 0.33 (- 1) 0.03 2 0.01 5.0 0) = - 1 \<and>
   b (tshirt_params_ctor 0.439 0.066 (- 1) 0.355 0.01 1 0.0 0.33 (- 1) 0.03 2 0.01 5.0 0) = 1 \<and>
   max_groundwater_storage_meters
     (tshirt_params_ctor 0.439 0.066 (- 1) 0.355 0.01 1 0.0 0.33 (- 1) 0.03 2 0.01 5.0 0) = 0"
  by (simp add: tshirt_params_ctor_def)

subsection \<open>The outlet vector of \<open>run\<close>\<close>

text \<open>
  C4. The vector \<open>subsurface_outlets\<close> of \<open>run\<close> is declared empty and written at
  index 0 (and then 1) with \<open>operator[]\<close>, which does not resize it. So for every
  parameter set and field capacity the two writes end in the out-of-bounds error, and
  every call of \<open>run\<close> ends in it: the soil reservoir of line 316 is never built.
\<close>

theorem run_out_of_bounds:
  "run_subsurface_outlets [] params Sfc = Inl OutOfBounds \<and>
   run ext dt params state new_state0 fluxes0 input_flux_meters giuh_obj et_params =
     Inl OutOfBounds"
proof -
  have writes: "run_subsurface_outlets [] params S = Inl OutOfBounds" for S
    by (simp add: run_subsurface_outlets_def vector_set_def)
  show ?thesis
    by (simp add: writes run_def Let_def split: prod.split)
qed

text \<open>
  So no call of \<open>run\<close> reaches line 316 or any line after it: lines 316-370 are code
  that the program never executes, and no call returns a state or fluxes.
\<close>

lemma run_returns_nothing:
  "run ext dt params state new_state0 fluxes0 input_flux_meters giuh_obj et_params \<noteq> Inr res"
  by (simp add: run_def Let_def run_subsurface_outlets_def vector_set_def split: prod.split)

subsection \<open>The reservoirs' configurations\<close>

text \<open>
  C3, as the code has it. In both construction paths the groundwater reservoir has one
  outlet, with coefficient \<open>Cgw\<close>, exponent 1 (the literal \<open>1\<close> of lines 167 and 356, not
  \<open>expon\<close>), activation threshold 0 and maximum velocity \<open>Cgw * (exp(expon) - 1)\<close>.
\<close>

theorem groundwater_outlet_configuration:
  "outlets (run_groundwater_res params state) =
     [\<lparr> coefficient = Cgw params, exponent = 1, activation_threshold_meters = 0,
        max_velocity_meters_per_second = Cgw params * (exp (expon params) - 1) \<rparr>] \<and>
   outlets (model_groundwater_reservoir params state) =
     [\<lparr> coefficient = Cgw params, exponent = 1, activation_threshold_meters = 0,
        max_velocity_meters_per_second = Cgw params * (exp (expon params) - 1) \<rparr>]"
  by (simp add: run_groundwater_res_def model_groundwater_reservoir_def
      Nonlinear_Reservoir_single_def Nonlinear_Reservoir_outlets_def Reservoir_Outlet_ctor_def)

text \<open>
  C3 as stated fails: for the parameters of the spec's scenario \<open>expon\<close> is 5, and the
  exponent of the groundwater outlet is 1 in both paths.
\<close>

theorem groundwater_outlet_exponent_counterexample:
  "expon scenario_params = 5 \<and>
   map exponent (outlets (run_groundwater_res scenario_params example_state)) = [1] \<and>
   map exponent (outlets (model_groundwater_reservoir scenario_params example_state)) = [1]"
  by (simp add: scenario_params_def tshirt_params_ctor_def run_groundwater_res_def
      model_groundwater_reservoir_def Nonlinear_Reservoir_single_def
      Nonlinear_Reservoir_outlets_def Reservoir_Outlet_ctor_def)

text \<open>
  Where the two construction paths agree: the groundwater reservoir; the cascade, given
  the same field capacity; the soil reservoir, given the same outlets.
\<close>

lemma groundwater_configurations_agree:
  "run_groundwater_res params state = model_groundwater_reservoir params state"
  by (simp add: run_groundwater_res_def model_groundwater_reservoir_def)

lemma cascade_configurations_agree:
  "init_nash_cascade_vector params state Sfc (max_lateral_flow params) =
     model_soil_lf_nash_res params (Some state) Sfc"
  by (cases "resize_count (nash_n params)")
    (simp_all add: init_nash_cascade_vector_def model_soil_lf_nash_res_def deref_def)

lemma soil_configurations_agree:
  "run_subsurface_reservoir params state outs = model_soil_reservoir params state outs"
  by (simp add: run_subsurface_reservoir_def model_soil_reservoir_def)

text \<open>
  C7. The two paths do not build the same soil reservoir: the constructor of
  \<open>tshirt_model\<close> sizes its vector of outlets (\<open>soil_res_outlets(2)\<close>) and gets the two
  outlets, \<open>run\<close> leaves its vector empty and ends in the out-of-bounds error of C4. For
  the example the constructor returns the model shown, with all its reservoirs.
\<close>

theorem run_and_model_soil_outlets_differ:
  "model_soil_res_outlets ext params Sfc =
     Inr [Reservoir_Outlet_ctor (Klf params) 1 Sfc (max_lateral_flow params),
          Reservoir_Outlet_ctor (satdk params * slope params) 1 Sfc (satdk params)] \<and>
   run_subsurface_outlets [] params Sfc = Inl OutOfBounds \<and>
   run ext dt params state new_state0 fluxes0 input_flux_meters giuh_obj et_params =
     Inl OutOfBounds \<and>
   tshirt_model_ctor (bucket_collaborators 0) example_params (Some example_state) =
     Inr \<lparr> current_state = Some example_state, model_params = example_params,
           previous_state = Some example_state,
           soil_lf_nash_res =
             [Nonlinear_Reservoir_single 0 1 (1/2) (1/2) 1 0 0,
              Nonlinear_Reservoir_single 0 1 0 (1/2) 1 0 0],
           lf_outlet_index = 0, perc_outlet_index = 1,
           soil_reservoir =
             Nonlinear_Reservoir_outlets 0 2 (1/2)
               [Reservoir_Outlet_ctor 0 1 0 0, Reservoir_Outlet_ctor 0 1 0 0],
           groundwater_reservoir = Nonlinear_Reservoir_single 0 1 0 0 1 0 0,
           fluxes = None \<rparr>"
proof -
  have model: "model_soil_res_outlets ext params Sfc =
     Inr [Reservoir_Outlet_ctor (Klf params) 1 Sfc (max_lateral_flow params),
          Reservoir_Outlet_ctor (satdk params * slope params) 1 Sfc (satdk params)]"
    by (simp add: model_soil_res_outlets_def vector_set_def numeral_2_eq_2)
  have writes: "run_subsurface_outlets [] params S = Inl OutOfBounds" for S
    by (simp add: run_subsurface_outlets_def vector_set_def)
  have kernel: "run ext dt params state new_state0 fluxes0 input_flux_meters giuh_obj et_params =
     Inl OutOfBounds"
    by (simp add: writes run_def Let_def split: prod.split)
  have example: "tshirt_model_ctor (bucket_collaborators 0) example_params (Some example_state) =
     Inr \<lparr> current_state = Some example_state, model_params = example_params,
           previous_state = Some example_state,
           soil_lf_nash_res =
             [Nonlinear_Reservoir_single 0 1 (1/2) (1/2) 1 0 0,
              Nonlinear_Reservoir_single 0 1 0 (1/2) 1 0 0],
           lf_outlet_index = 0, perc_outlet_index = 1,
           soil_reservoir =
             Nonlinear_Reservoir_outlets 0 2 (1/2)
               [Reservoir_Outlet_ctor 0 1 0 0, Reservoir_Outlet_ctor 0 1 0 0],
           groundwater_reservoir = Nonlinear_Reservoir_single 0 1 0 0 1 0 0,
           fluxes = None \<rparr>"
    by (simp add: evaluation_rules)
  from model writes kernel example show ?thesis by simp
qed

text \<open>
  C1. The claim asks that the soil storage stay within
  \<open>[0, max_soil_storage_meters]\<close> and that the soil reservoir enforce
  \<open>max_soil_storage_meters\<close> (= \<open>depth * maxsmc\<close>) as its upper bound. The code gives the
  soil reservoir \<open>depth\<close> as its maximum storage, in the constructor of \<open>tshirt_model\<close>
  (line 158) as in the expression of line 316. For the parameters and the initial state
  of the spec's scenario, whatever the collaborators, the constructor returns a model
  whose soil reservoir has the maximum 2 while \<open>max_soil_storage_meters\<close> is 0.878.
\<close>

theorem soil_reservoir_maximum_is_depth:
  "maximum_storage_meters (model_soil_reservoir params state outs) = depth params \<and>
   maximum_storage_meters (run_subsurface_reservoir params state outs) = depth params \<and>
   (case tshirt_model_ctor ext scenario_params (Some scenario_state) of
      Inl e \<Rightarrow> None
    | Inr m \<Rightarrow>
        Some (maximum_storage_meters (soil_reservoir m),
              max_soil_storage_meters (model_params m))) = Some (2, 0.878)"
proof -
  have general:
    "maximum_storage_meters (model_soil_reservoir params state outs) = depth params"
    "maximum_storage_meters (run_subsurface_reservoir params state outs) = depth params"
    by (simp_all add: run_subsurface_reservoir_def model_soil_reservoir_def
        Nonlinear_Reservoir_outlets_def)
  have scenario:
    "(case tshirt_model_ctor ext scenario_params (Some scenario_state) of
        Inl e \<Rightarrow> None
      | Inr m \<Rightarrow>
          Some (maximum_storage_meters (soil_reservoir m),
                max_soil_storage_meters (model_params m))) = Some (2, 0.878)"
    by (simp add: scenario_params_def scenario_state_def tshirt_params_ctor_def
        tshirt_state_ctor_def tshirt_model_ctor_def model_soil_lf_nash_res_def
        model_soil_res_outlets_def model_soil_reservoir_def deref_def resize_count_def
        cascade_storage_at_def vector_set_def Nonlinear_Reservoir_outlets_def Let_def
        upt_rec numeral_2_eq_2)
  from general scenario show ?thesis by simp
qed

subsection \<open>The time step\<close>

text \<open>
  C2. The claim asks that every call of \<open>run\<close> return a new state assembled from the
  soil storage, the groundwater storage and the storages of the cascade stages. For the
  spec's scenario (an hour, an input flux of 1e-5), whatever the collaborators and the
  objects passed for \<open>new_state\<close> and \<open>fluxes\<close>, the call ends in the out-of-bounds write
  of line 310, before any member of \<open>new_state\<close> is assigned: this is the defect of C4.
\<close>

theorem run_assembles_no_state:
  "run ext 3600 scenario_params scenario_state new_state0 fluxes0 (1 / 100000) giuh_obj
     et_params = Inl OutOfBounds"
proof -
  have writes: "run_subsurface_outlets [] scenario_params Sfc = Inl OutOfBounds" for Sfc
    by (simp add: run_subsurface_outlets_def vector_set_def)
  show ?thesis
    by (simp add: writes run_def Let_def split: prod.split)
qed

text \<open>
  C6. The claim asks that every time step give a new soil storage equal to the storage
  after routing minus the ET loss, and never below 0. For the spec's scenario without
  input and an ET submodel that reports a loss of 1, the step ends in the out-of-bounds
  write of line 310: lines 328-330, which would compute the loss and the new soil
  storage, are not reached, and no soil storage is computed. This is the defect of C4.
\<close>

theorem run_computes_no_soil_storage:
  "run (bucket_collaborators 1) 3600 scenario_params scenario_state example_new_state
     example_fluxes 0 () example_et_params = Inl OutOfBounds"
proof -
  have writes: "run_subsurface_outlets [] scenario_params Sfc = Inl OutOfBounds" for Sfc
    by (simp add: run_subsurface_outlets_def vector_set_def)
  show ?thesis
    by (simp add: writes run_def Let_def split: prod.split)
qed

subsection \<open>The cascade\<close>

text \<open>
  C5, as the code has it. For a time step \<open>dt > 0\<close> and every stage \<open>r\<close> of the cascade,
  wherever it stands: the stage receives \<open>Qlf\<close> as the stages before it left it, and what
  goes on to the stages after it (after the last stage: the final \<open>Qlf\<close>) is the stage's
  output velocity plus the stage's excess divided by \<open>dt\<close>. So the excess of a stage is
  fed into the next stage; only the last stage's excess is added to the final value
  itself.
\<close>

theorem nash_cascade_loop_stage:
  assumes "0 < dt"
  shows "nash_cascade_loop ext dt (rs1 @ r # rs2) Qlf =
     (case nash_cascade_loop ext dt rs1 Qlf of
        (Qlf1, rs1') \<Rightarrow>
          (case response_meters_per_second ext r Qlf1 dt of
             (out_velocity, excess, r') \<Rightarrow>
               (case nash_cascade_loop ext dt rs2 (out_velocity + excess / dt) of
                  (Qlf2, rs2') \<Rightarrow> (Qlf2, rs1' @ r' # rs2'))))"
  by (induction rs1 arbitrary: Qlf) (auto split: prod.splits)

text \<open>
  The example cascade with an inflow of 3 over one second: the first stage passes on
  7/4 + 3/4, the second 5/4 + 1/4.
\<close>

theorem nash_cascade_loop_stage_witness:
  "(0::real) < 1 \<and>
   nash_cascade_loop (bucket_collaborators 0) 1 example_cascade 3 =
     (3 / 2,
      [Nonlinear_Reservoir_single 0 1 1 (1/2) 1 0 2,
       Nonlinear_Reservoir_single 0 1 1 (1/2) 1 0 2])"
proof -
  let ?ext = "bucket_collaborators 0"
  let ?r1 = "Nonlinear_Reservoir_single 0 1 (1/2) (1/2) 1 0 2"
  let ?r2 = "Nonlinear_Reservoir_single 0 1 0 (1/2) 1 0 2"
  let ?full = "Nonlinear_Reservoir_single 0 1 1 (1/2) 1 0 2"
  have dt: "(0::real) < 1" by simp
  have cascade: "example_cascade = [] @ ?r1 # [?r2]"
    by (simp add: example_cascade_def)
  have first: "response_meters_per_second ?ext ?r1 3 1 = (7 / 4, 3 / 4, ?full)"
    by (simp add: Nonlinear_Reservoir_single_def Nonlinear_Reservoir_outlets_def
        Reservoir_Outlet_ctor_def bucket_collaborators_def bucket_response_def
        bucket_outlet_velocity_def Let_def)
  have second: "response_meters_per_second ?ext ?r2 (5 / 2) 1 = (5 / 4, 1 / 4, ?full)"
    by (simp add: Nonlinear_Reservoir_single_def Nonlinear_Reservoir_outlets_def
        Reservoir_Outlet_ctor_def bucket_collaborators_def bucket_response_def
        bucket_outlet_velocity_def Let_def)
  have "nash_cascade_loop ?ext 1 ([] @ ?r1 # [?r2]) 3 = (3 / 2, [?full, ?full])"
    by (subst nash_cascade_loop_stage [OF dt]) (simp add: first second)
  with dt cascade show ?thesis by simp
qed

text \<open>
  C5 as stated fails: for the example cascade with an inflow of 3 over one second, the
  loop ends with \<open>Qlf = 3/2\<close>, while routing through the stages and adding the two
  excesses (3/4 and 0), divided by \<open>dt\<close>, to the final value gives 13/8.
\<close>

theorem nash_cascade_accumulated_excess_counterexample:
  "fst (nash_cascade_loop (bucket_collaborators 0) 1 example_cascade 3) = 3 / 2 \<and>
   spec_nash_cascade (bucket_collaborators 0) 1 example_cascade 3 0 = 13 / 8"
  by (simp add: example_cascade_def Nonlinear_Reservoir_single_def
      Nonlinear_Reservoir_outlets_def Reservoir_Outlet_ctor_def bucket_collaborators_def
      bucket_response_def bucket_outlet_velocity_def Let_def)

subsection \<open>The default initial state\<close>

text \<open>
  C10. The constructor of \<open>tshirt_model\<close> with one argument passes a state whose cascade
  pointer is null; with \<open>nash_n > 0\<close> the loop of lines 138-144 reads
  \<open>previous_state->nash_cascade_storeage_meters[0]\<close>, and the construction ends in the
  null pointer error.
\<close>

theorem tshirt_model_default_null_pointer:
  assumes "0 < nash_n model_params'"
  shows "tshirt_model_ctor_default ext model_params' = Inl NullPointer"
proof -
  let ?st = "tshirt_state_ctor_default 0 0"
  have stages: "[0..<nat (nash_n model_params')] = 0 # [Suc 0..<nat (nash_n model_params')]"
    using assms by (simp add: upt_conv_Cons)
  have first: "cascade_storage_at ?st 0 = Inl NullPointer"
    by (simp add: cascade_storage_at_def tshirt_state_ctor_default_def tshirt_state_ctor_def)
  have "model_soil_lf_nash_res model_params' (Some ?st) Sfc = Inl NullPointer" for Sfc
    using assms by (simp add: model_soil_lf_nash_res_def resize_count_def stages deref_def first)
  then show ?thesis
    by (simp add: tshirt_model_ctor_default_def tshirt_model_ctor_def)
qed

theorem tshirt_model_default_null_pointer_witness:
  "0 < nash_n example_params \<and>
   tshirt_model_ctor_default (bucket_collaborators 0) example_params = Inl NullPointer"
proof -
  have stages: "0 < nash_n example_params"
    by (simp add: example_params_def tshirt_params_ctor_def)
  from tshirt_model_default_null_pointer [OF stages] stages show ?thesis by simp
qed

lemma tshirt_model_default_without_cascade:
  assumes "nash_n model_params' = 0"
  shows "\<exists>m. tshirt_model_ctor_default ext model_params' = Inr m"
  using assms
  by (simp add: tshirt_model_ctor_default_def tshirt_model_ctor_def model_soil_lf_nash_res_def
      resize_count_def model_soil_res_outlets_def vector_set_def numeral_2_eq_2 deref_def
      Let_def)

end
